theory Spec2Isabelle
  imports Complex_Main "HOL-Library.Log_Nat"
begin

section \<open>Data model (schemas.py)\<close>

text \<open>
  The pydantic models of \<^verbatim>\<open>schemas.py\<close> as records. A handler of \<^verbatim>\<open>main.py\<close> receives a
  value that pydantic has already validated, so the records are the handlers' inputs.
  Python's \<^verbatim>\<open>float\<close> is modelled by \<^typ>\<open>real\<close>: monetary arithmetic is exact in the model,
  binary64 rounding, infinities and NaN are outside it. Python's \<^verbatim>\<open>int\<close> is \<^typ>\<open>int\<close>,
  \<^verbatim>\<open>str\<close> is \<^typ>\<open>string\<close>, \<^verbatim>\<open>Optional[t]\<close> is \<open>t option\<close>.
  Where two models share a field name the later one carries a prefix
  (\<open>item_\<close> for OrderItem, \<open>addr_\<close> for Address, \<open>news_\<close> for Newsletter, \<open>msg_\<close> for
  ContactMessage).
\<close>

record Product =
  title :: string
  slug :: string
  description :: string
  short_description :: "string option"
  price :: real
  category :: string
  colors :: "string list"
  sizes :: "int list"
  images :: "string list"
  leather :: "string option"
  craftsmanship :: "string option"
  is_featured :: bool

record Review =
  product_id :: string
  name :: string
  rating :: int
  comment :: string
  created_at :: "int option"

record OrderItem =
  item_product_id :: string
  item_title :: string
  item_price :: real
  item_size :: int
  item_color :: string
  quantity :: int

record Address =
  full_name :: string
  addr_email :: string
  phone :: "string option"
  line1 :: string
  line2 :: "string option"
  city :: string
  state :: string
  country :: string
  postal_code :: string

record Order =
  items :: "OrderItem list"
  shipping :: Address
  subtotal :: real
  shipping_cost :: real
  total :: real
  status :: string

record Newsletter =
  news_email :: string

record ContactMessage =
  msg_name :: string
  msg_email :: string
  msg_subject :: string
  msg_message :: string

text \<open>
  The \<^verbatim>\<open>Field\<close> constraints of \<^verbatim>\<open>schemas.py\<close>: \<^verbatim>\<open>ge=0\<close> on Product.price,
  \<^verbatim>\<open>ge=1, le=5\<close> on Review.rating, \<^verbatim>\<open>ge=1\<close> on OrderItem.quantity. \<^verbatim>\<open>Order.items\<close> is a
  \<^verbatim>\<open>List[OrderItem]\<close> with no length constraint. The syntax check of \<^verbatim>\<open>EmailStr\<close> belongs to
  an external library and is not part of the model.
\<close>

definition Product_constraints :: "Product \<Rightarrow> bool" where
  "Product_constraints p = (0 \<le> price p)"

definition Review_constraints :: "Review \<Rightarrow> bool" where
  "Review_constraints r = (1 \<le> rating r \<and> rating r \<le> 5)"



section \<open>Responses\<close>

text \<open>
  \<^verbatim>\<open>raise HTTPException(status_code=c, detail=d)\<close> is the value \<open>Inl (HTTPException c d)\<close>; a
  handler that returns a dictionary returns \<open>Inr\<close> of its key/value pairs, in the order the
  source writes them.
\<close>

datatype http_error = HTTPException nat string

datatype json = JStr string | JInt int

type_synonym body = "(string \<times> json) list"

text \<open>
  The status line of a response (FastAPI): a handler that returns normally answers with the
  \<^verbatim>\<open>status_code\<close> of its route decorator (200 when the decorator gives none), whatever branch
  returned; a raised \<^verbatim>\<open>HTTPException\<close> answers with its own status code.
\<close>

fun http_status :: "nat \<Rightarrow> http_error + 'a \<Rightarrow> nat" where
  "http_status route_code (Inr b) = route_code"
| "http_status route_code (Inl (HTTPException c d)) = c"

section \<open>Identifier codec\<close>

text \<open>
  A store identifier (\<^verbatim>\<open>bson.ObjectId\<close>) is 12 bytes, modelled by the number they spell
  (big-endian). Its string form \<^verbatim>\<open>str(ObjectId)\<close> is 24 lower-case hexadecimal digits;
  \<^verbatim>\<open>ObjectId(s)\<close> accepts a string of 24 hexadecimal digits of either case and raises on any
  other string.
\<close>

type_synonym ObjectId = nat

definition hex_digit :: "nat \<Rightarrow> char" where
  "hex_digit d = ''0123456789abcdef'' ! (d mod 16)"

fun hex_digits :: "nat \<Rightarrow> nat \<Rightarrow> string" where
  "hex_digits 0 n = []"
| "hex_digits (Suc k) n = hex_digits k (n div 16) @ [hex_digit n]"

definition str_ObjectId :: "ObjectId \<Rightarrow> string" where
  "str_ObjectId i = hex_digits 24 i"

definition hex_value :: "char \<Rightarrow> nat option" where
  "hex_value c =
     (let n = of_char c :: nat in
      if 48 \<le> n \<and> n \<le> 57 then Some (n - 48)
      else if 97 \<le> n \<and> n \<le> 102 then Some (n - 87)
      else if 65 \<le> n \<and> n \<le> 70 then Some (n - 55)
      else None)"

fun from_hex :: "nat \<Rightarrow> string \<Rightarrow> nat option" where
  "from_hex acc [] = Some acc"
| "from_hex acc (c # cs) =
     (case hex_value c of None \<Rightarrow> None | Some d \<Rightarrow> from_hex (16 * acc + d) cs)"

definition new_ObjectId :: "string \<Rightarrow> ObjectId option" where
  "new_ObjectId s = (if length s = 24 then from_hex 0 s else None)"

text \<open>
  \<^verbatim>\<open>oid\<close> (main.py, lines 25-29): decode a wire id, turning every failure into a 400.
\<close>

definition oid :: "string \<Rightarrow> http_error + ObjectId" where
  "oid id_str =
     (case new_ObjectId id_str of
        Some i \<Rightarrow> Inr i
      | None \<Rightarrow> Inl (HTTPException 400 ''Invalid id''))"

section \<open>Document store gateway\<close>

text \<open>
  The store: one list of documents per named collection, each document paired with the
  identifier the store gave it (\<^verbatim>\<open>_id\<close>), in insertion order, and the next identifier the
  store will hand out. Every call is assumed to reach the store (a connectivity failure is
  not modelled here; the health check below has it as an input).
\<close>

record store =
  coll_product :: "(ObjectId \<times> Product) list"
  coll_review :: "(ObjectId \<times> Review) list"
  coll_order :: "(ObjectId \<times> Order) list"
  coll_newsletter :: "(ObjectId \<times> Newsletter) list"
  coll_contactmessage :: "(ObjectId \<times> ContactMessage) list"
  next_oid :: ObjectId

text \<open>
  \<^verbatim>\<open>find_one(filter)\<close> of the driver: the first document that matches, or \<^verbatim>\<open>None\<close>.
  \<^verbatim>\<open>find(filter)\<close>: all documents that match, in store order.
\<close>

definition find_one :: "('d \<Rightarrow> bool) \<Rightarrow> (ObjectId \<times> 'd) list \<Rightarrow> (ObjectId \<times> 'd) option" where
  "find_one flt docs = List.find (\<lambda>d. flt (snd d)) docs"

definition find_many :: "('d \<Rightarrow> bool) \<Rightarrow> (ObjectId \<times> 'd) list \<Rightarrow> (ObjectId \<times> 'd) list" where
  "find_many flt docs = filter (\<lambda>d. flt (snd d)) docs"

text \<open>
  Modelled from the spec: \<^verbatim>\<open>create_document(collection, data)\<close> of the repository's
  \<^verbatim>\<open>database\<close> module, which is not among the source files. Section 4.2: insert "assigns a
  new unique identifier, persists the document, returns the identifier", with "no uniqueness
  enforcement beyond what callers check explicitly beforehand"; the handlers put the returned
  value under \<^verbatim>\<open>"id"\<close>, the wire id of the new document. One instance per collection.
\<close>

definition create_document_product :: "Product \<Rightarrow> store \<Rightarrow> string \<times> store" where
  "create_document_product p st =
     (str_ObjectId (next_oid st),
      st\<lparr>coll_product := coll_product st @ [(next_oid st, p)], next_oid := Suc (next_oid st)\<rparr>)"

definition create_document_review :: "Review \<Rightarrow> store \<Rightarrow> string \<times> store" where
  "create_document_review r st =
     (str_ObjectId (next_oid st),
      st\<lparr>coll_review := coll_review st @ [(next_oid st, r)], next_oid := Suc (next_oid st)\<rparr>)"

definition create_document_order :: "Order \<Rightarrow> store \<Rightarrow> string \<times> store" where
  "create_document_order ord st =
     (str_ObjectId (next_oid st),
      st\<lparr>coll_order := coll_order st @ [(next_oid st, ord)], next_oid := Suc (next_oid st)\<rparr>)"

definition create_document_newsletter :: "Newsletter \<Rightarrow> store \<Rightarrow> string \<times> store" where
  "create_document_newsletter n st =
     (str_ObjectId (next_oid st),
      st\<lparr>coll_newsletter := coll_newsletter st @ [(next_oid st, n)], next_oid := Suc (next_oid st)\<rparr>)"

definition create_document_contactmessage :: "ContactMessage \<Rightarrow> store \<Rightarrow> string \<times> store" where
  "create_document_contactmessage m st =
     (str_ObjectId (next_oid st),
      st\<lparr>coll_contactmessage := coll_contactmessage st @ [(next_oid st, m)],
         next_oid := Suc (next_oid st)\<rparr>)"

definition empty_store :: store where
  "empty_store =
     \<lparr>coll_product = [], coll_review = [], coll_order = [], coll_newsletter = [],
      coll_contactmessage = [], next_oid = 0\<rparr>"

section \<open>Orders (main.py, lines 82-90)\<close>

text \<open>
  \<^verbatim>\<open>calc_subtotal = sum(i.price * i.quantity for i in order.items)\<close>: the sum starts at 0
  and adds the items' products from left to right.
\<close>

definition calc_subtotal :: "Order \<Rightarrow> real" where
  "calc_subtotal ord = sum_list (map (\<lambda>i. item_price i * real_of_int (quantity i)) (items ord))"

definition create_order :: "Order \<Rightarrow> store \<Rightarrow> (http_error + body) \<times> store" where
  "create_order ord st =
     (if \<bar>calc_subtotal ord - subtotal ord\<bar> > 0.01 then
        (Inl (HTTPException 400 ''Subtotal mismatch''), st)
      else if \<bar>subtotal ord + shipping_cost ord - total ord\<bar> > 0.01 then
        (Inl (HTTPException 400 ''Total mismatch''), st)
      else
        (let (oid_str, st') = create_document_order ord st
         in (Inr [(''id'', JStr oid_str), (''status'', JStr ''received'')], st')))"







section \<open>Products (main.py, lines 36-56)\<close>









definition get_documents_review :: "(Review \<Rightarrow> bool) \<Rightarrow> store \<Rightarrow> (ObjectId \<times> Review) list" where
  "get_documents_review flt st = find_many flt (coll_review st)"


definition create_product :: "Product \<Rightarrow> store \<Rightarrow> (http_error + body) \<times> store" where
  "create_product prd st =
     (case find_one (\<lambda>d. slug d = slug prd) (coll_product st) of
        Some existing \<Rightarrow> (Inl (HTTPException 400 ''Slug already exists''), st)
      | None \<Rightarrow>
          (let (insert_id, st') = create_document_product prd st
           in (Inr [(''id'', JStr insert_id)], st')))"

text \<open>The route: \<^verbatim>\<open>@app.post("/api/products", status_code=201)\<close>.\<close>

definition create_product_status :: "Product \<Rightarrow> store \<Rightarrow> nat" where
  "create_product_status prd st = http_status 201 (fst (create_product prd st))"

section \<open>Reviews (main.py, lines 67-79)\<close>

text \<open>
  \<^verbatim>\<open>get_reviews\<close>: the path segment is compared, as a string, with the \<^verbatim>\<open>product_id\<close> field of
  the stored reviews; each review found is returned with \<^verbatim>\<open>"id"\<close> set to the string form of
  its \<^verbatim>\<open>_id\<close>. The handler has no \<^verbatim>\<open>raise\<close>.
\<close>

definition get_reviews :: "string \<Rightarrow> store \<Rightarrow> http_error + (string \<times> Review) list" where
  "get_reviews pid st =
     Inr (map (\<lambda>(i, r). (str_ObjectId i, r))
            (get_documents_review (\<lambda>r. product_id r = pid) st))"

definition add_review :: "string \<Rightarrow> Review \<Rightarrow> store \<Rightarrow> (http_error + body) \<times> store" where
  "add_review pid review st =
     (if product_id review \<noteq> pid then
        (Inl (HTTPException 400 ''Mismatched product_id''), st)
      else
        (let (rid, st') = create_document_review review st
         in (Inr [(''id'', JStr rid)], st')))"

text \<open>The routes: \<^verbatim>\<open>@app.get(...)\<close> (200) and \<^verbatim>\<open>@app.post(..., status_code=201)\<close>.\<close>

definition get_reviews_status :: "string \<Rightarrow> store \<Rightarrow> nat" where
  "get_reviews_status pid st = http_status 200 (get_reviews pid st)"

definition add_review_status :: "string \<Rightarrow> Review \<Rightarrow> store \<Rightarrow> nat" where
  "add_review_status pid review st = http_status 201 (fst (add_review pid review st))"

section \<open>Newsletter (main.py, lines 93-99)\<close>

definition subscribe :: "Newsletter \<Rightarrow> store \<Rightarrow> (http_error + body) \<times> store" where
  "subscribe news st =
     (case find_one (\<lambda>d. news_email d = news_email news) (coll_newsletter st) of
        Some existing \<Rightarrow> (Inr [(''status'', JStr ''already_subscribed'')], st)
      | None \<Rightarrow>
          (let (nid, st') = create_document_newsletter news st
           in (Inr [(''status'', JStr ''subscribed''), (''id'', JStr nid)], st')))"

text \<open>The route: \<^verbatim>\<open>@app.post("/api/newsletter", status_code=201)\<close>.\<close>

definition subscribe_status :: "Newsletter \<Rightarrow> store \<Rightarrow> nat" where
  "subscribe_status news st = http_status 201 (fst (subscribe news st))"

section \<open>Contact (main.py, lines 102-105)\<close>

definition contact :: "ContactMessage \<Rightarrow> store \<Rightarrow> (http_error + body) \<times> store" where
  "contact msg st =
     (let (cid, st') = create_document_contactmessage msg st
      in (Inr [(''status'', JStr ''received''), (''id'', JStr cid)], st'))"

section \<open>Seed (main.py, lines 108-167)\<close>

text \<open>
  The three canned products. The bullet of the \<^verbatim>\<open>craftsmanship\<close> texts (U+2022) is written
  as its three UTF-8 bytes.
\<close>

definition bullet :: string where
  "bullet = [CHR 0xE2, CHR 0x80, CHR 0xA2]"

definition sample_oxford :: Product where
  "sample_oxford =
     \<lparr>title = ''Cap-Toe Oxford in Nero'',
      slug = ''cap-toe-oxford-nero'',
      description = ''Handmade cap-toe Oxford crafted in premium full-grain calfskin. Goodyear welted for longevity and comfort.'',
      short_description = Some ''Handmade cap-toe Oxford in black calfskin'',
      price = 495,
      category = ''formal'',
      colors = [''nero'', ''ebony''],
      sizes = [39, 40, 41, 42, 43, 44, 45],
      images =
        [''https://images.unsplash.com/photo-1541099649105-f69ad21f3246?q=80&w=1200&auto=format&fit=crop'',
         ''https://images.unsplash.com/photo-1593032457861-1f1f86c52a3e?q=80&w=1200&auto=format&fit=crop''],
      leather = Some ''Full-grain calfskin'',
      craftsmanship = Some (''Goodyear welt '' @ bullet @ '' Hand-burnished''),
      is_featured = True\<rparr>"

definition sample_loafer :: Product where
  "sample_loafer =
     \<lparr>title = ''Handstitched Loafer in Chestnut'',
      slug = ''handstitched-loafer-chestnut'',
      description = ''Classic penny loafer with meticulous hand-stitching and cushioned insole for all-day ease.'',
      short_description = Some ''Handstitched chestnut loafer'',
      price = 425,
      category = ''casual'',
      colors = [''chestnut'', ''mahogany''],
      sizes = [39, 40, 41, 42, 43, 44, 45],
      images =
        [''https://images.unsplash.com/photo-1598866594230-a7c12756260f?q=80&w=1200&auto=format&fit=crop'',
         ''https://images.unsplash.com/photo-1560365163-3e8d64e762ef?q=80&w=1200&auto=format&fit=crop''],
      leather = Some ''Antiqued calf'',
      craftsmanship = Some (''Hand-stitched apron '' @ bullet @ '' Blake construction''),
      is_featured = True\<rparr>"

definition sample_wholecut :: Product where
  "sample_wholecut =
     \<lparr>title = ''Wholecut in Espresso'',
      slug = ''wholecut-espresso'',
      description = ''Sculpted from a single piece of leather. Minimal seams, maximal elegance.'',
      short_description = Some ''Wholecut in deep espresso'',
      price = 545,
      category = ''formal'',
      colors = [''espresso''],
      sizes = [39, 40, 41, 42, 43, 44, 45],
      images =
        [''https://images.unsplash.com/photo-1520975682031-c5815e43a916?q=80&w=1200&auto=format&fit=crop''],
      leather = Some ''Museum calf'',
      craftsmanship = Some (''Hand-dyed patina '' @ bullet @ '' Goodyear welt''),
      is_featured = False\<rparr>"

definition samples :: "Product list" where
  "samples = [sample_oxford, sample_loafer, sample_wholecut]"

text \<open>
  The loop \<^verbatim>\<open>for p in samples\<close>: each lookup sees the documents the earlier iterations
  inserted. A document that \<^verbatim>\<open>find_one\<close> returns is a non-empty dictionary, hence true.
\<close>

fun seed_loop :: "Product list \<Rightarrow> int \<Rightarrow> store \<Rightarrow> int \<times> store" where
  "seed_loop [] created st = (created, st)"
| "seed_loop (p # ps) created st =
     (case find_one (\<lambda>d. slug d = slug p) (coll_product st) of
        None \<Rightarrow>
          (let (new_id, st') = create_document_product p st
           in seed_loop ps (created + 1) st')
      | Some existing \<Rightarrow> seed_loop ps created st)"

definition seed :: "store \<Rightarrow> body \<times> store" where
  "seed st = (let (created, st') = seed_loop samples 0 st in ([(''seeded'', JInt created)], st'))"

section \<open>Health check (main.py, lines 170-196)\<close>

text \<open>
  What the handler reads from its environment: whether the store handle \<^verbatim>\<open>db\<close> is not
  \<^verbatim>\<open>None\<close>, the two environment variables, and the outcome of
  \<^verbatim>\<open>db.list_collection_names()\<close>, which is \<open>Inl\<close> of the message \<^verbatim>\<open>str(e)\<close> of the exception
  it raises or \<open>Inr\<close> of the names it returns.
\<close>

record probes =
  db_is_not_None :: bool
  env_DATABASE_URL :: "string option"
  env_DATABASE_NAME :: "string option"
  list_collection_names :: "string + string list"

text \<open>
  The texts of the report, which the source writes with emoji, one constructor each:
  \<^verbatim>\<open>Running\<close>; \<^verbatim>\<open>Not Available\<close>, \<^verbatim>\<open>Available\<close>, \<^verbatim>\<open>Connected & Working\<close>,
  \<^verbatim>\<open>Connected but Error: <message>\<close>, \<^verbatim>\<open>Available but not initialized\<close>, \<^verbatim>\<open>Error: <message>\<close>;
  \<^verbatim>\<open>Set\<close> and \<^verbatim>\<open>Not Set\<close>.
\<close>

datatype backend_text = Running

datatype database_text =
    Not_Available
  | Available
  | Connected_and_Working
  | Connected_but_Error string
  | Available_but_not_initialized
  | Error string

datatype config_text = Is_Set | Not_Set

record health_report =
  backend :: backend_text
  database :: database_text
  database_url :: "config_text option"
  database_name :: "config_text option"
  connection_status :: string
  collections :: "string list"

text \<open>\<^verbatim>\<open>"Set" if os.getenv(...) else "Not Set"\<close>: an unset variable and an empty one are false.\<close>

definition config_flag :: "string option \<Rightarrow> config_text" where
  "config_flag v = (case v of None \<Rightarrow> Not_Set | Some s \<Rightarrow> if s \<noteq> [] then Is_Set else Not_Set)"

definition initial_response :: health_report where
  "initial_response =
     \<lparr>backend = Running, database = Not_Available, database_url = None, database_name = None,
      connection_status = ''Not Connected'', collections = []\<rparr>"

text \<open>
  The inner \<^verbatim>\<open>try\<close>: the call may raise before anything is assigned; the \<^verbatim>\<open>except\<close> clause
  writes the first 50 characters of the message into the \<^verbatim>\<open>database\<close> field.
\<close>

definition list_collections_step :: "probes \<Rightarrow> health_report \<Rightarrow> string + health_report" where
  "list_collections_step pr response =
     (case list_collection_names pr of
        Inl e \<Rightarrow> Inl e
      | Inr names \<Rightarrow>
          Inr (response\<lparr>collections := take 10 names, database := Connected_and_Working,
                         connection_status := ''Connected''\<rparr>))"

definition inner_try :: "probes \<Rightarrow> health_report \<Rightarrow> string + health_report" where
  "inner_try pr response =
     (case list_collections_step pr response of
        Inr response' \<Rightarrow> Inr response'
      | Inl e \<Rightarrow> Inr (response\<lparr>database := Connected_but_Error (take 50 e)\<rparr>))"

text \<open>The body of the outer \<^verbatim>\<open>try\<close>; \<open>Inl\<close> is an exception that leaves it.\<close>

definition outer_body :: "probes \<Rightarrow> health_report \<Rightarrow> string + health_report" where
  "outer_body pr response =
     (if db_is_not_None pr then
        inner_try pr
          (response\<lparr>database := Available,
                     database_url := Some (config_flag (env_DATABASE_URL pr)),
                     database_name := Some (config_flag (env_DATABASE_NAME pr))\<rparr>)
      else Inr (response\<lparr>database := Available_but_not_initialized\<rparr>))"

text \<open>
  \<^verbatim>\<open>test_database\<close>: \<open>Inl\<close> would be an exception leaving the handler, \<open>Inr\<close> is the report it
  returns. The outer \<^verbatim>\<open>except\<close> clause is kept as the source has it; no statement of the outer
  body outside the inner \<^verbatim>\<open>try\<close> raises, so the clause is never entered.
\<close>

definition test_database :: "probes \<Rightarrow> string + health_report" where
  "test_database pr =
     (case outer_body pr initial_response of
        Inr response \<Rightarrow> Inr response
      | Inl e \<Rightarrow> Inr (initial_response\<lparr>database := Error (take 50 e)\<rparr>))"

section \<open>Example inputs and store invariants\<close>

definition example_news :: Newsletter where
  "example_news = \<lparr>news_email = ''ada@example.com''\<rparr>"

text \<open>The e-mail addresses that have a document in the newsletter collection.\<close>

definition emails :: "store \<Rightarrow> string set" where
  "emails st = set (map (\<lambda>d. news_email (snd d)) (coll_newsletter st))"

definition example_review :: "string \<Rightarrow> Review" where
  "example_review pid =
     \<lparr>product_id = pid, name = ''Ada'', rating = 5, comment = ''Fine shoes'', created_at = None\<rparr>"

text \<open>The slugs of the product documents, in store order, and the invariant on them.\<close>

definition slugs :: "store \<Rightarrow> string list" where
  "slugs st = map (\<lambda>d. slug (snd d)) (coll_product st)"

definition slugs_distinct :: "store \<Rightarrow> bool" where
  "slugs_distinct st = distinct (slugs st)"

definition example_product :: "string \<Rightarrow> string \<Rightarrow> Product" where
  "example_product s t =
     \<lparr>title = t, slug = s, description = ''A shoe'', short_description = None, price = 100,
      category = ''formal'', colors = [], sizes = [], images = [], leather = None,
      craftsmanship = None, is_featured = False\<rparr>"

text \<open>The canned products that \<^verbatim>\<open>seed\<close> has to insert into a store: those whose slug is absent.\<close>

definition missing_samples :: "store \<Rightarrow> Product list" where
  "missing_samples st = filter (\<lambda>p. slug p \<notin> set (slugs st)) samples"

text \<open>
  Three outcomes of the health check's probes: no store handle; a handle whose listing
  fails with a message of 60 characters; a handle that lists twelve collections.
\<close>

definition probes_no_handle :: probes where
  "probes_no_handle =
     \<lparr>db_is_not_None = False, env_DATABASE_URL = None, env_DATABASE_NAME = None,
      list_collection_names = Inr []\<rparr>"

definition probes_listing_fails :: probes where
  "probes_listing_fails =
     \<lparr>db_is_not_None = True, env_DATABASE_URL = Some ''mongodb://db'', env_DATABASE_NAME = Some '''',
      list_collection_names = Inl (replicate 60 CHR ''x'')\<rparr>"

definition probes_twelve :: probes where
  "probes_twelve =
     \<lparr>db_is_not_None = True, env_DATABASE_URL = Some ''mongodb://db'',
      env_DATABASE_NAME = Some ''shop'',
      list_collection_names =
        Inr [''c01'', ''c02'', ''c03'', ''c04'', ''c05'', ''c06'', ''c07'', ''c08'', ''c09'',
             ''c10'', ''c11'', ''c12'']\<rparr>"


section \<open>Orders in binary64 arithmetic\<close>

text \<open>
  The order check once more, with Python's \<^verbatim>\<open>float\<close> as IEEE 754 binary64 instead of exact
  reals: every literal and every result of \<^verbatim>\<open>*\<close>, \<^verbatim>\<open>+\<close> and \<^verbatim>\<open>-\<close> is rounded to the nearest
  number with a significand of 53 bits, ties to the even significand. The model covers the
  normal range only (no overflow, no subnormal numbers, no infinity, no NaN); the exact
  model above is the one the general statements are about, this one shows what rounding
  does to the concrete orders.
\<close>

definition round_half_even :: "real \<Rightarrow> int" where
  "round_half_even x =
     (let f = \<lfloor>x\<rfloor>; r = x - of_int f
      in if r < 1/2 then f else if 1/2 < r then f + 1 else if even f then f else f + 1)"

text \<open>The exponent \<open>e\<close> with \<open>2 powi e \<le> \<bar>x\<bar> < 2 powi (e + 1)\<close>, for \<open>x \<noteq> 0\<close>.\<close>

definition binade :: "real \<Rightarrow> int" where
  "binade x = (if 1 \<le> \<bar>x\<bar> then bitlen \<lfloor>\<bar>x\<bar>\<rfloor> - 1 else - bitlen (\<lceil>1 / \<bar>x\<bar>\<rceil> - 1))"

definition binary64 :: "real \<Rightarrow> real" where
  "binary64 x =
     (if x = 0 then 0
      else of_int (round_half_even (x / 2 powi (binade x - 52))) * 2 powi (binade x - 52))"




section \<open>Order validation\<close>




subsection \<open>Binary64 rounding\<close>

text \<open>
  The exponent that \<open>binade\<close> computes is the right one, and \<open>binary64\<close> is within half a
  unit in the last place of its argument.
\<close>

lemma round_half_even_error: "\<bar>of_int (round_half_even x) - x\<bar> \<le> 1/2"
  unfolding round_half_even_def Let_def by (auto simp: abs_if) linarith+

lemma bitlen_bounds_real:
  fixes n :: int
  assumes "0 < n"
  shows "2 powi (bitlen n - 1) \<le> real_of_int n" and "real_of_int n + 1 \<le> 2 powi (bitlen n)"
proof -
  from bitlen_bounds [OF assms] have lo: "2 ^ nat (bitlen n - 1) \<le> n" and hi: "n < 2 ^ nat (bitlen n)"
    by simp_all
  have b1: "1 \<le> bitlen n" using assms by (auto simp: bitlen_alt_def)
  have "2 powi (bitlen n - 1) = (2::real) ^ nat (bitlen n - 1)"
    using b1 by (simp add: power_int_def)
  also have "\<dots> = real_of_int (2 ^ nat (bitlen n - 1))" by simp
  also have "\<dots> \<le> real_of_int n" using lo by (simp only: of_int_le_iff)
  finally show "2 powi (bitlen n - 1) \<le> real_of_int n" .
  from hi have "n + 1 \<le> 2 ^ nat (bitlen n)" by simp
  then have "real_of_int (n + 1) \<le> real_of_int (2 ^ nat (bitlen n))" by (simp only: of_int_le_iff)
  also have "\<dots> = 2 powi (bitlen n)" using b1 by (simp add: power_int_def)
  finally show "real_of_int n + 1 \<le> 2 powi (bitlen n)" by simp
qed

lemma binade_bounds:
  assumes "x \<noteq> 0"
  shows "2 powi (binade x) \<le> \<bar>x\<bar>" and "\<bar>x\<bar> < 2 powi (binade x + 1)"
proof -
  define a where "a = \<bar>x\<bar>"
  have a0: "0 < a" using assms by (simp add: a_def)
  have "2 powi (binade x) \<le> a \<and> a < 2 powi (binade x + 1)"
  proof (cases "1 \<le> a")
    case True
    define n where "n = \<lfloor>a\<rfloor>"
    have n1: "0 < n" using True by (simp add: n_def)
    have e: "binade x = bitlen n - 1" using True by (simp add: binade_def a_def n_def)
    have "real_of_int n \<le> a" and "a < real_of_int n + 1" unfolding n_def by linarith+
    with bitlen_bounds_real [OF n1] show ?thesis unfolding e by simp
  next
    case False
    define y where "y = 1 / a"
    define m where "m = \<lceil>y\<rceil> - 1"
    have y1: "1 < y" using False a0 by (simp add: y_def)
    have m1: "0 < m" using y1 unfolding m_def by linarith
    have my: "real_of_int m < y" and ym: "y \<le> real_of_int m + 1"
      unfolding m_def by linarith+
    have e: "binade x = - bitlen m" using False by (simp add: binade_def a_def m_def y_def)
    note bb = bitlen_bounds_real [OF m1]
    have k: "(2::real) powi (bitlen m) > 0" by simp
    have ay: "a = 1 / y" using a0 by (simp add: y_def)
    have "y \<le> 2 powi (bitlen m)" using ym bb(2) by linarith
    then have lo: "2 powi (- bitlen m) \<le> a"
      unfolding ay using y1 by (simp add: power_int_minus field_simps)
    have "2 powi (bitlen m - 1) < y" using my bb(1) by linarith
    then have hi: "a < 2 powi (- bitlen m + 1)"
      unfolding ay using y1 by (simp add: power_int_minus power_int_diff power_int_add field_simps)
    from lo hi show ?thesis unfolding e by simp
  qed
  then show "2 powi (binade x) \<le> \<bar>x\<bar>" and "\<bar>x\<bar> < 2 powi (binade x + 1)"
    by (simp_all add: a_def)
qed

lemma binary64_error: "\<bar>binary64 x - x\<bar> \<le> 2 powi (binade x - 53)"
proof (cases "x = 0")
  case True
  then show ?thesis by (simp add: binary64_def)
next
  case False
  define u :: real where "u = 2 powi (binade x - 52)"
  have u0: "0 < u" by (simp add: u_def)
  have half: "u / 2 = 2 powi (binade x - 53)"
    by (simp add: u_def power_int_diff)
  have "binary64 x - x = (of_int (round_half_even (x / u)) - x / u) * u"
    using False u0 by (simp add: binary64_def u_def [symmetric] field_simps)
  then have "\<bar>binary64 x - x\<bar> = \<bar>of_int (round_half_even (x / u)) - x / u\<bar> * u"
    using u0 by (simp add: abs_mult)
  also have "\<dots> \<le> 1/2 * u"
    using round_half_even_error [of "x / u"] u0 by (intro mult_right_mono) simp_all
  finally show ?thesis using half by simp
qed








subsection \<open>The claims on order validation\<close>








section \<open>Newsletter subscription\<close>

lemma find_one_None_iff: "find_one flt docs = None \<longleftrightarrow> (\<forall>d \<in> set docs. \<not> flt (snd d))"
  by (auto simp: find_one_def find_None_iff)

lemma find_one_newsletter:
  "find_one (\<lambda>d. news_email d = e) (coll_newsletter st) = None \<longleftrightarrow> e \<notin> emails st"
  by (auto simp: find_one_None_iff emails_def)

text \<open>
  Claim C2, as the code has it. For every newsletter subscribe request: if no document with
  that email exists, the response has HTTP status 201 with body {status: "subscribed", id}
  and one new document is inserted; if a document with that email already exists, the body
  is {status: "already_subscribed"}, it has no id field, the store is unchanged, and the
  HTTP status is again 201, the status code of the route, since this branch returns
  normally too.
\<close>

theorem subscribe_new_or_existing:
  "(news_email news \<notin> emails st \<longrightarrow>
      subscribe news st =
        (Inr [(''status'', JStr ''subscribed''), (''id'', JStr (str_ObjectId (next_oid st)))],
         st\<lparr>coll_newsletter := coll_newsletter st @ [(next_oid st, news)],
            next_oid := Suc (next_oid st)\<rparr>)
      \<and> subscribe_status news st = 201)
   \<and> (news_email news \<in> emails st \<longrightarrow>
      subscribe news st = (Inr [(''status'', JStr ''already_subscribed'')], st)
      \<and> map_of [(''status'', JStr ''already_subscribed'')] ''id'' = None
      \<and> subscribe_status news st = 201)"
proof -
  have new: "news_email news \<notin> emails st \<Longrightarrow>
      subscribe news st =
        (Inr [(''status'', JStr ''subscribed''), (''id'', JStr (str_ObjectId (next_oid st)))],
         st\<lparr>coll_newsletter := coll_newsletter st @ [(next_oid st, news)],
            next_oid := Suc (next_oid st)\<rparr>)"
    using find_one_newsletter [of "news_email news" st]
    by (simp add: subscribe_def create_document_newsletter_def)
  have old: "news_email news \<in> emails st \<Longrightarrow>
      subscribe news st = (Inr [(''status'', JStr ''already_subscribed'')], st)"
    using find_one_newsletter [of "news_email news" st]
    by (auto simp: subscribe_def split: option.splits)
  show ?thesis
    using new old by (auto simp: subscribe_status_def)
qed

text \<open>
  The theorem of C2 at one address subscribed twice to the empty store: the first request
  inserts the document, the second finds it and leaves the collection at one document.
\<close>

theorem subscribe_new_or_existing_witness:
  "news_email example_news \<notin> emails empty_store
   \<and> subscribe example_news empty_store =
       (Inr [(''status'', JStr ''subscribed''), (''id'', JStr (str_ObjectId 0))],
        empty_store\<lparr>coll_newsletter := [(0, example_news)], next_oid := 1\<rparr>)
   \<and> news_email example_news \<in> emails (snd (subscribe example_news empty_store))
   \<and> subscribe example_news (snd (subscribe example_news empty_store)) =
       (Inr [(''status'', JStr ''already_subscribed'')], snd (subscribe example_news empty_store))
   \<and> length (coll_newsletter (snd (subscribe example_news (snd (subscribe example_news empty_store))))) = 1"
proof -
  have h1: "news_email example_news \<notin> emails empty_store"
    by (simp add: emails_def empty_store_def)
  have s1: "subscribe example_news empty_store =
       (Inr [(''status'', JStr ''subscribed''), (''id'', JStr (str_ObjectId 0))],
        empty_store\<lparr>coll_newsletter := [(0, example_news)], next_oid := 1\<rparr>)"
    using h1 subscribe_new_or_existing [of example_news empty_store]
    by (simp add: empty_store_def)
  have h2: "news_email example_news \<in> emails (snd (subscribe example_news empty_store))"
    unfolding s1 by (simp add: emails_def)
  have s2: "subscribe example_news (snd (subscribe example_news empty_store)) =
       (Inr [(''status'', JStr ''already_subscribed'')], snd (subscribe example_news empty_store))"
    using h2 subscribe_new_or_existing [of example_news "snd (subscribe example_news empty_store)"]
    by blast
  have "length (coll_newsletter (snd (subscribe example_news (snd (subscribe example_news empty_store))))) = 1"
    unfolding s2 unfolding s1 by simp
  with h1 s1 h2 s2 show ?thesis by blast
qed

text \<open>
  Against C2 as the spec states it: the second subscription of the same address answers
  with HTTP status 201, not 200.
\<close>

theorem subscribe_again_status_201:
  "subscribe_status example_news (snd (subscribe example_news empty_store)) = 201
   \<and> subscribe_status example_news (snd (subscribe example_news empty_store)) \<noteq> 200"
  by (simp add: subscribe_status_def subscribe_def create_document_newsletter_def
      empty_store_def find_one_def)

section \<open>Reviews and the identifier codec\<close>

lemma from_hex_None_iff: "from_hex acc s = None \<longleftrightarrow> (\<exists>c \<in> set s. hex_value c = None)"
  by (induction s arbitrary: acc) (auto split: option.splits)

lemma oid_invalid_iff:
  "oid s = Inl (HTTPException 400 ''Invalid id'') \<longleftrightarrow>
     \<not> (length s = 24 \<and> list_all (\<lambda>c. hex_value c \<noteq> None) s)"
proof -
  have "new_ObjectId s = None \<longleftrightarrow>
      \<not> (length s = 24 \<and> list_all (\<lambda>c. hex_value c \<noteq> None) s)"
    unfolding new_ObjectId_def list_all_iff using from_hex_None_iff [of 0 s] by auto
  then show ?thesis
    by (cases "new_ObjectId s") (simp_all add: oid_def)
qed

text \<open>
  Claim C3, as the code has it. The product_id path segment of the list-reviews and
  add-review operations is not decoded: it is used as an opaque string. List-reviews
  answers 200 with the reviews whose product_id field equals the segment, whatever the
  segment is; add-review never fails with "Invalid id", and when the payload's product_id
  equals the segment it answers 201. The decode helper \<open>oid\<close> does fail with 400 "Invalid id"
  exactly on the strings that are not 24 hexadecimal digits, but no handler calls it.
\<close>

theorem review_path_id_not_decoded:
  "get_reviews pid st =
     Inr (map (\<lambda>(i, r). (str_ObjectId i, r)) (filter (\<lambda>d. product_id (snd d) = pid) (coll_review st)))
   \<and> get_reviews_status pid st = 200
   \<and> fst (add_review pid review st) \<noteq> Inl (HTTPException 400 ''Invalid id'')
   \<and> (product_id review = pid \<longrightarrow>
        (\<exists>b. fst (add_review pid review st) = Inr b) \<and> add_review_status pid review st = 201)
   \<and> (oid s = Inl (HTTPException 400 ''Invalid id'') \<longleftrightarrow>
        \<not> (length s = 24 \<and> list_all (\<lambda>c. hex_value c \<noteq> None) s))"
  using oid_invalid_iff [of s]
  by (simp add: get_reviews_def get_reviews_status_def get_documents_review_def find_many_def
      add_review_def add_review_status_def create_document_review_def)

text \<open>
  The theorem of C3 at the path segment "abc", which is not a store identifier, with a
  review for "abc".
\<close>

theorem review_path_id_not_decoded_witness:
  "product_id (example_review ''abc'') = ''abc''
   \<and> (\<exists>b. fst (add_review ''abc'' (example_review ''abc'') empty_store) = Inr b)
   \<and> add_review_status ''abc'' (example_review ''abc'') empty_store = 201
   \<and> \<not> (length ''abc'' = 24 \<and> list_all (\<lambda>c. hex_value c \<noteq> None) ''abc'')
   \<and> oid ''abc'' = Inl (HTTPException 400 ''Invalid id'')"
proof -
  have h: "product_id (example_review ''abc'') = ''abc''"
    by (simp add: example_review_def)
  have l: "\<not> (length ''abc'' = 24 \<and> list_all (\<lambda>c. hex_value c \<noteq> None) ''abc'')"
    by simp
  from h l review_path_id_not_decoded [of "''abc''" empty_store "example_review ''abc''" "''abc''"]
  show ?thesis by blast
qed

text \<open>
  Against C3 as the spec states it: "abc" is not a valid store identifier (the codec
  rejects it), and yet list-reviews for "abc" answers 200 with an empty list and add-review
  for "abc" writes the review.
\<close>

theorem get_reviews_abc_not_invalid_identifier:
  "oid ''abc'' = Inl (HTTPException 400 ''Invalid id'')
   \<and> get_reviews ''abc'' empty_store = Inr []
   \<and> get_reviews_status ''abc'' empty_store = 200
   \<and> add_review ''abc'' (example_review ''abc'') empty_store =
       (Inr [(''id'', JStr (str_ObjectId 0))],
        empty_store\<lparr>coll_review := [(0, example_review ''abc'')], next_oid := 1\<rparr>)"
  by (simp add: oid_def new_ObjectId_def get_reviews_def get_reviews_status_def
      get_documents_review_def find_many_def add_review_def create_document_review_def
      empty_store_def example_review_def)

text \<open>
  Claim C5. Adding a review whose payload product_id differs from the path product_id is
  rejected with 400 "Mismatched product_id" and the store is unchanged; when they are
  equal, one review document is inserted and 201 {id} is returned.
\<close>

theorem add_review_mismatch:
  "(product_id review \<noteq> pid \<longrightarrow>
      add_review pid review st = (Inl (HTTPException 400 ''Mismatched product_id''), st)
      \<and> add_review_status pid review st = 400)
   \<and> (product_id review = pid \<longrightarrow>
      add_review pid review st =
        (Inr [(''id'', JStr (str_ObjectId (next_oid st)))],
         st\<lparr>coll_review := coll_review st @ [(next_oid st, review)], next_oid := Suc (next_oid st)\<rparr>)
      \<and> add_review_status pid review st = 201)"
  by (simp add: add_review_def add_review_status_def create_document_review_def)

text \<open>
  The theorem of C5 at the path "abc": a payload for "xyz" is rejected and nothing is
  written; a payload for "abc" is written.
\<close>

theorem add_review_mismatch_witness:
  "product_id (example_review ''xyz'') \<noteq> ''abc''
   \<and> add_review ''abc'' (example_review ''xyz'') empty_store =
       (Inl (HTTPException 400 ''Mismatched product_id''), empty_store)
   \<and> add_review_status ''abc'' (example_review ''xyz'') empty_store = 400
   \<and> product_id (example_review ''abc'') = ''abc''
   \<and> coll_review (snd (add_review ''abc'' (example_review ''abc'') empty_store)) =
       [(0, example_review ''abc'')]
   \<and> add_review_status ''abc'' (example_review ''abc'') empty_store = 201"
proof -
  have h1: "product_id (example_review ''xyz'') \<noteq> ''abc''"
    by (simp add: example_review_def)
  have h2: "product_id (example_review ''abc'') = ''abc''"
    by (simp add: example_review_def)
  have "coll_review (snd (add_review ''abc'' (example_review ''abc'') empty_store)) =
       [(0, example_review ''abc'')]"
    using h2 add_review_mismatch [of "example_review ''abc''" "''abc''" empty_store]
    by (simp add: empty_store_def)
  with h1 h2 add_review_mismatch [of "example_review ''xyz''" "''abc''" empty_store]
    add_review_mismatch [of "example_review ''abc''" "''abc''" empty_store]
  show ?thesis by blast
qed

section \<open>Slug uniqueness and seeding\<close>

lemma find_one_slug:
  "find_one (\<lambda>d. slug d = s) (coll_product st) = None \<longleftrightarrow> s \<notin> set (slugs st)"
  by (auto simp: find_one_None_iff slugs_def)

lemma create_product_new:
  "slug p \<notin> set (slugs st) \<Longrightarrow>
     create_product p st =
       (Inr [(''id'', JStr (str_ObjectId (next_oid st)))],
        st\<lparr>coll_product := coll_product st @ [(next_oid st, p)], next_oid := Suc (next_oid st)\<rparr>)"
  using find_one_slug [of "slug p" st]
  by (simp add: create_product_def create_document_product_def)

lemma create_product_existing:
  "slug p \<in> set (slugs st) \<Longrightarrow>
     create_product p st = (Inl (HTTPException 400 ''Slug already exists''), st)"
  using find_one_slug [of "slug p" st]
  by (auto simp: create_product_def split: option.splits)

lemma slugs_create_product:
  "slugs (snd (create_product p st)) =
     (if slug p \<in> set (slugs st) then slugs st else slugs st @ [slug p])"
  by (simp add: create_product_new create_product_existing) (simp add: slugs_def)

lemma upt_from_Suc: "[n ..< Suc (n + k)] = n # [Suc n ..< Suc (n + k)]"
  by (subst upt_rec) simp

lemma seed_loop_eq:
  "distinct (map slug ps) \<Longrightarrow>
     seed_loop ps c st =
       (c + int (length (filter (\<lambda>p. slug p \<notin> set (slugs st)) ps)),
        st\<lparr>coll_product :=
             coll_product st @
             zip [next_oid st ..< next_oid st + length (filter (\<lambda>p. slug p \<notin> set (slugs st)) ps)]
               (filter (\<lambda>p. slug p \<notin> set (slugs st)) ps),
           next_oid := next_oid st + length (filter (\<lambda>p. slug p \<notin> set (slugs st)) ps)\<rparr>)"
proof (induction ps arbitrary: c st)
  case Nil
  show ?case by simp
next
  case (Cons p ps)
  from Cons.prems have d: "distinct (map slug ps)" and np: "slug p \<notin> slug ` set ps"
    by simp_all
  show ?case
  proof (cases "slug p \<in> set (slugs st)")
    case True
    then obtain e where "find_one (\<lambda>d. slug d = slug p) (coll_product st) = Some e"
      using find_one_slug [of "slug p" st] by auto
    with True Cons.IH [OF d, of c st] show ?thesis by simp
  next
    case False
    let ?st = "st\<lparr>coll_product := coll_product st @ [(next_oid st, p)], next_oid := Suc (next_oid st)\<rparr>"
    have f: "find_one (\<lambda>d. slug d = slug p) (coll_product st) = None"
      using False find_one_slug [of "slug p" st] by simp
    have same: "filter (\<lambda>q. slug q \<notin> set (slugs ?st)) ps = filter (\<lambda>q. slug q \<notin> set (slugs st)) ps"
      using np by (intro filter_cong refl) (auto simp: slugs_def intro: rev_image_eqI)
    have step: "seed_loop (p # ps) c st = seed_loop ps (c + 1) ?st"
      using f by (simp add: create_document_product_def)
    have fl: "filter (\<lambda>q. slug q \<notin> set (slugs st)) (p # ps) =
        p # filter (\<lambda>q. slug q \<notin> set (slugs st)) ps"
      using False by simp
    show ?thesis
      unfolding step Cons.IH [OF d, of "c + 1" ?st] same fl
      by (simp add: upt_from_Suc del: upt_Suc)
  qed
qed

lemma distinct_sample_slugs: "distinct (map slug samples)"
  by (simp add: samples_def sample_oxford_def sample_loafer_def sample_wholecut_def)

lemma seed_eq:
  "seed st =
     ([(''seeded'', JInt (int (length (missing_samples st))))],
      st\<lparr>coll_product :=
           coll_product st @
           zip [next_oid st ..< next_oid st + length (missing_samples st)] (missing_samples st),
         next_oid := next_oid st + length (missing_samples st)\<rparr>)"
  unfolding seed_def missing_samples_def seed_loop_eq [OF distinct_sample_slugs] by simp

lemma map_snd_zip_same_length:
  "length xs = length ys \<Longrightarrow> map (\<lambda>d. f (snd d)) (zip xs ys) = map f ys"
  by (induction xs ys rule: list_induct2) simp_all

lemma map_snd_zip_upt: "map (\<lambda>d. f (snd d)) (zip [n ..< n + length ys] ys) = map f ys"
  by (rule map_snd_zip_same_length) simp

lemma slugs_seed: "slugs (snd (seed st)) = slugs st @ map slug (missing_samples st)"
  unfolding seed_eq by (simp add: slugs_def map_snd_zip_upt)

lemma missing_samples_nil_iff:
  "missing_samples st = [] \<longleftrightarrow> set (map slug samples) \<subseteq> set (slugs st)"
  by (auto simp: missing_samples_def filter_empty_conv)

lemma seed_nothing_missing:
  "missing_samples st = [] \<Longrightarrow> seed st = ([(''seeded'', JInt 0)], st)"
  unfolding seed_eq by simp

lemma missing_samples_after_seed: "missing_samples (snd (seed st)) = []"
  unfolding missing_samples_nil_iff slugs_seed
  by (auto simp: missing_samples_def)

lemma slugs_distinct_seed: "slugs_distinct st \<Longrightarrow> slugs_distinct (snd (seed st))"
  unfolding slugs_distinct_def slugs_seed
  using distinct_sample_slugs by (auto simp: missing_samples_def distinct_map_filter)

lemma slugs_distinct_create_product:
  "slugs_distinct st \<Longrightarrow> slugs_distinct (snd (create_product p st))"
  unfolding slugs_distinct_def slugs_create_product by simp

lemma slugs_other_handlers:
  "slugs (snd (add_review pid review st)) = slugs st"
  "slugs (snd (create_order ord st)) = slugs st"
  "slugs (snd (subscribe news st)) = slugs st"
  "slugs (snd (contact msg st)) = slugs st"
  by (simp_all add: slugs_def add_review_def create_document_review_def create_order_def
      create_document_order_def subscribe_def create_document_newsletter_def contact_def
      create_document_contactmessage_def split: option.splits)

text \<open>
  Claim C4. Slug uniqueness is an invariant preserved by every operation: starting from a
  store in which product slugs are pairwise distinct, they are pairwise distinct after
  create-product, seed, add-review, create-order, subscribe and contact. Create-product
  rejects a payload whose slug already exists with 400 "Slug already exists" and inserts
  nothing, so two sequential creates with the same slug leave exactly one document for
  that slug; seed appends exactly the canned products whose slug is absent.
\<close>

theorem slug_uniqueness_preserved:
  "slugs_distinct st \<Longrightarrow>
     slugs_distinct (snd (create_product p st))
     \<and> slugs_distinct (snd (seed st))
     \<and> slugs_distinct (snd (add_review pid review st))
     \<and> slugs_distinct (snd (create_order ord st))
     \<and> slugs_distinct (snd (subscribe news st))
     \<and> slugs_distinct (snd (contact msg st))
     \<and> (slug p \<in> set (slugs st) \<longrightarrow>
          create_product p st = (Inl (HTTPException 400 ''Slug already exists''), st)
          \<and> create_product_status p st = 400)
     \<and> (slug p \<notin> set (slugs st) \<and> slug p' = slug p \<longrightarrow>
          create_product p' (snd (create_product p st)) =
            (Inl (HTTPException 400 ''Slug already exists''), snd (create_product p st))
          \<and> length (filter (\<lambda>d. slug (snd d) = slug p)
                (coll_product (snd (create_product p' (snd (create_product p st)))))) = 1)
     \<and> map snd (coll_product (snd (seed st))) =
          map snd (coll_product st) @ filter (\<lambda>q. slug q \<notin> set (slugs st)) samples"
proof -
  assume inv: "slugs_distinct st"
  have dup: "slug p \<in> set (slugs st) \<longrightarrow>
          create_product p st = (Inl (HTTPException 400 ''Slug already exists''), st)
          \<and> create_product_status p st = 400"
    by (simp add: create_product_existing create_product_status_def)
  have twice: "slug p \<notin> set (slugs st) \<and> slug p' = slug p \<longrightarrow>
          create_product p' (snd (create_product p st)) =
            (Inl (HTTPException 400 ''Slug already exists''), snd (create_product p st))
          \<and> length (filter (\<lambda>d. slug (snd d) = slug p)
                (coll_product (snd (create_product p' (snd (create_product p st)))))) = 1"
  proof
    assume a: "slug p \<notin> set (slugs st) \<and> slug p' = slug p"
    let ?st1 = "snd (create_product p st)"
    have in1: "slug p' \<in> set (slugs ?st1)"
      using a by (simp add: slugs_create_product)
    then have second: "create_product p' ?st1 = (Inl (HTTPException 400 ''Slug already exists''), ?st1)"
      by (rule create_product_existing)
    have "filter (\<lambda>d. slug (snd d) = slug p) (coll_product st) = []"
      using a by (auto simp: filter_empty_conv slugs_def intro: rev_image_eqI)
    then have "length (filter (\<lambda>d. slug (snd d) = slug p) (coll_product ?st1)) = 1"
      using a by (simp add: create_product_new)
    with second show "create_product p' ?st1 =
            (Inl (HTTPException 400 ''Slug already exists''), ?st1)
          \<and> length (filter (\<lambda>d. slug (snd d) = slug p)
                (coll_product (snd (create_product p' ?st1)))) = 1"
      by simp
  qed
  have seeded: "map snd (coll_product (snd (seed st))) =
          map snd (coll_product st) @ filter (\<lambda>q. slug q \<notin> set (slugs st)) samples"
    unfolding seed_eq by (simp add: missing_samples_def [symmetric] map_snd_zip)
  from inv have "slugs_distinct (snd (add_review pid review st))"
    "slugs_distinct (snd (create_order ord st))"
    "slugs_distinct (snd (subscribe news st))"
    "slugs_distinct (snd (contact msg st))"
    by (simp_all add: slugs_distinct_def slugs_other_handlers)
  with slugs_distinct_create_product [OF inv, of p] slugs_distinct_seed [OF inv] dup twice seeded
  show ?thesis by blast
qed

text \<open>
  The theorem of C4 at the empty store: a product with slug "oxford" is created, a second
  product with the same slug is rejected with 400, and one document has that slug.
\<close>

theorem slug_uniqueness_preserved_witness:
  "slugs_distinct empty_store
   \<and> slug (example_product ''oxford'' ''A'') \<notin> set (slugs empty_store)
   \<and> slug (example_product ''oxford'' ''B'') = slug (example_product ''oxford'' ''A'')
   \<and> create_product (example_product ''oxford'' ''B'')
         (snd (create_product (example_product ''oxford'' ''A'') empty_store)) =
       (Inl (HTTPException 400 ''Slug already exists''),
        snd (create_product (example_product ''oxford'' ''A'') empty_store))
   \<and> length (filter (\<lambda>d. slug (snd d) = slug (example_product ''oxford'' ''A''))
         (coll_product (snd (create_product (example_product ''oxford'' ''B'')
            (snd (create_product (example_product ''oxford'' ''A'') empty_store)))))) = 1
   \<and> slugs_distinct (snd (create_product (example_product ''oxford'' ''A'') empty_store))
   \<and> slug (example_product ''oxford'' ''B'')
         \<in> set (slugs (snd (create_product (example_product ''oxford'' ''A'') empty_store)))
   \<and> create_product_status (example_product ''oxford'' ''B'')
         (snd (create_product (example_product ''oxford'' ''A'') empty_store)) = 400
   \<and> slugs_distinct (snd (seed empty_store))"
proof -
  let ?a = "example_product ''oxford'' ''A''" and ?b = "example_product ''oxford'' ''B''"
  let ?st1 = "snd (create_product ?a empty_store)"
  have inv: "slugs_distinct empty_store"
    by (simp add: slugs_distinct_def slugs_def empty_store_def)
  have fresh: "slug ?a \<notin> set (slugs empty_store)"
    by (simp add: slugs_def empty_store_def)
  have same: "slug ?b = slug ?a"
    by (simp add: example_product_def)
  note first = slug_uniqueness_preserved [OF inv, where p = ?a and p' = ?b]
  from first have inv1: "slugs_distinct ?st1" by blast
  have there: "slug ?b \<in> set (slugs ?st1)"
    using fresh same by (simp add: slugs_create_product)
  note second = slug_uniqueness_preserved [OF inv1, where p = ?b]
  from inv fresh same first inv1 there second show ?thesis by blast
qed

text \<open>
  Claim C7. Seed inserts only those of its 3 canned products whose slug is absent from the
  store and returns {seeded: n} where n is the number of documents it inserted; once all
  three canned slugs exist it returns {seeded: 0} and leaves the store as it is, which is
  the case for every second call of seed, so no duplicate product is created.
\<close>

theorem seed_idempotent:
  "seed st =
     ([(''seeded'', JInt (int (length (missing_samples st))))],
      st\<lparr>coll_product :=
           coll_product st @
           zip [next_oid st ..< next_oid st + length (missing_samples st)] (missing_samples st),
         next_oid := next_oid st + length (missing_samples st)\<rparr>)
   \<and> length samples = 3
   \<and> length (coll_product (snd (seed st))) = length (coll_product st) + length (missing_samples st)
   \<and> (set (map slug samples) \<subseteq> set (slugs st) \<longrightarrow> seed st = ([(''seeded'', JInt 0)], st))
   \<and> seed (snd (seed st)) = ([(''seeded'', JInt 0)], snd (seed st))
   \<and> (slugs_distinct st \<longrightarrow> slugs_distinct (snd (seed (snd (seed st)))))"
proof -
  have n: "length (coll_product (snd (seed st))) =
      length (coll_product st) + length (missing_samples st)"
    unfolding seed_eq by simp
  have present: "set (map slug samples) \<subseteq> set (slugs st) \<longrightarrow>
      seed st = ([(''seeded'', JInt 0)], st)"
    using missing_samples_nil_iff [of st] seed_nothing_missing [of st] by blast
  have again: "seed (snd (seed st)) = ([(''seeded'', JInt 0)], snd (seed st))"
    using missing_samples_after_seed [of st] by (rule seed_nothing_missing)
  have dist: "slugs_distinct st \<longrightarrow> slugs_distinct (snd (seed (snd (seed st))))"
    unfolding again using slugs_distinct_seed [of st] by simp
  have three: "length samples = 3"
    by (simp add: samples_def)
  from seed_eq [of st] three n present again dist show ?thesis by blast
qed

text \<open>
  The theorem of C7 at the empty store: the first call inserts the three canned products
  and reports 3, the second reports 0 and the collection still has three documents.
\<close>

theorem seed_idempotent_witness:
  "seed empty_store =
     ([(''seeded'', JInt 3)],
      empty_store\<lparr>coll_product := [(0, sample_oxford), (1, sample_loafer), (2, sample_wholecut)],
        next_oid := 3\<rparr>)
   \<and> set (map slug samples) \<subseteq> set (slugs (snd (seed empty_store)))
   \<and> seed (snd (seed empty_store)) = ([(''seeded'', JInt 0)], snd (seed empty_store))
   \<and> slugs_distinct empty_store
   \<and> slugs_distinct (snd (seed (snd (seed empty_store))))
   \<and> length (coll_product (snd (seed (snd (seed empty_store))))) = 3"
proof -
  have m: "missing_samples empty_store = [sample_oxford, sample_loafer, sample_wholecut]"
    by (simp add: missing_samples_def slugs_def empty_store_def samples_def)
  have u: "[0 ..< 3] = [0, 1, 2::nat]"
    by (simp add: upt_rec)
  have first: "seed empty_store =
     ([(''seeded'', JInt 3)],
      empty_store\<lparr>coll_product := [(0, sample_oxford), (1, sample_loafer), (2, sample_wholecut)],
        next_oid := 3\<rparr>)"
    using seed_idempotent [of empty_store] unfolding m by (simp add: empty_store_def u)
  have all: "set (map slug samples) \<subseteq> set (slugs (snd (seed empty_store)))"
    unfolding first by (simp add: slugs_def samples_def)
  have inv: "slugs_distinct empty_store"
    by (simp add: slugs_distinct_def slugs_def empty_store_def)
  from all seed_idempotent [of "snd (seed empty_store)"]
  have again: "seed (snd (seed empty_store)) = ([(''seeded'', JInt 0)], snd (seed empty_store))"
    by blast
  have len: "length (coll_product (snd (seed (snd (seed empty_store))))) = 3"
    unfolding again unfolding first by simp
  from inv seed_idempotent [of empty_store]
  have "slugs_distinct (snd (seed (snd (seed empty_store))))" by blast
  with first all again inv len show ?thesis by blast
qed

section \<open>Health check report\<close>

lemma test_database_no_handle:
  "\<not> db_is_not_None pr \<Longrightarrow>
     test_database pr = Inr (initial_response\<lparr>database := Available_but_not_initialized\<rparr>)"
  by (simp add: test_database_def outer_body_def)

lemma test_database_listing_fails:
  "db_is_not_None pr \<Longrightarrow> list_collection_names pr = Inl e \<Longrightarrow>
     test_database pr =
       Inr (initial_response
             \<lparr>database := Connected_but_Error (take 50 e),
              database_url := Some (config_flag (env_DATABASE_URL pr)),
              database_name := Some (config_flag (env_DATABASE_NAME pr))\<rparr>)"
  by (simp add: test_database_def outer_body_def inner_try_def list_collections_step_def)

lemma test_database_listing_works:
  "db_is_not_None pr \<Longrightarrow> list_collection_names pr = Inr names \<Longrightarrow>
     test_database pr =
       Inr (initial_response
             \<lparr>database := Connected_and_Working,
              database_url := Some (config_flag (env_DATABASE_URL pr)),
              database_name := Some (config_flag (env_DATABASE_NAME pr)),
              connection_status := ''Connected'',
              collections := take 10 names\<rparr>)"
  by (simp add: test_database_def outer_body_def inner_try_def list_collections_step_def)

text \<open>
  Claim C8. The health-check operation never raises, whatever its store probes do: it
  always returns a report. Without a store handle the report says so in its database
  field; a failing listing of the collections is caught and its message, cut to 50
  characters, is written into the database field; and the collections field of the report
  holds at most 10 names, the first ten the listing returned.
\<close>

theorem test_database_never_raises:
  "(\<exists>r. test_database pr = Inr r \<and> length (collections r) \<le> 10 \<and> backend r = Running)
   \<and> (\<not> db_is_not_None pr \<longrightarrow>
        test_database pr = Inr (initial_response\<lparr>database := Available_but_not_initialized\<rparr>))
   \<and> (db_is_not_None pr \<and> list_collection_names pr = Inl e \<longrightarrow>
        test_database pr =
          Inr (initial_response
                \<lparr>database := Connected_but_Error (take 50 e),
                 database_url := Some (config_flag (env_DATABASE_URL pr)),
                 database_name := Some (config_flag (env_DATABASE_NAME pr))\<rparr>))
   \<and> (db_is_not_None pr \<and> list_collection_names pr = Inr names \<longrightarrow>
        test_database pr =
          Inr (initial_response
                \<lparr>database := Connected_and_Working,
                 database_url := Some (config_flag (env_DATABASE_URL pr)),
                 database_name := Some (config_flag (env_DATABASE_NAME pr)),
                 connection_status := ''Connected'',
                 collections := take 10 names\<rparr>))"
proof -
  have total: "\<exists>r. test_database pr = Inr r \<and> length (collections r) \<le> 10 \<and> backend r = Running"
  proof (cases "db_is_not_None pr")
    case False
    then show ?thesis
      by (simp add: test_database_no_handle initial_response_def)
  next
    case True
    show ?thesis
    proof (cases "list_collection_names pr")
      case (Inl e')
      with True show ?thesis
        by (simp add: test_database_listing_fails initial_response_def)
    next
      case (Inr names')
      with True show ?thesis
        by (simp add: test_database_listing_works initial_response_def)
    qed
  qed
  with test_database_no_handle [of pr] test_database_listing_fails [of pr e]
    test_database_listing_works [of pr names]
  show ?thesis by blast
qed

text \<open>
  The theorem of C8 at three probe outcomes: no store handle, a listing that fails with a
  message of 60 characters, and a listing of twelve collections.
\<close>

theorem test_database_never_raises_witness:
  "\<not> db_is_not_None probes_no_handle
   \<and> test_database probes_no_handle =
       Inr (initial_response\<lparr>database := Available_but_not_initialized\<rparr>)
   \<and> db_is_not_None probes_listing_fails
   \<and> list_collection_names probes_listing_fails = Inl (replicate 60 CHR ''x'')
   \<and> test_database probes_listing_fails =
       Inr (initial_response
             \<lparr>database := Connected_but_Error (replicate 50 CHR ''x''),
              database_url := Some Is_Set, database_name := Some Not_Set\<rparr>)
   \<and> db_is_not_None probes_twelve
   \<and> test_database probes_twelve =
       Inr (initial_response
             \<lparr>database := Connected_and_Working,
              database_url := Some Is_Set, database_name := Some Is_Set,
              connection_status := ''Connected'',
              collections :=
                [''c01'', ''c02'', ''c03'', ''c04'', ''c05'', ''c06'', ''c07'', ''c08'', ''c09'',
                 ''c10'']\<rparr>)"
proof -
  have a: "\<not> db_is_not_None probes_no_handle"
    by (simp add: probes_no_handle_def)
  have b: "db_is_not_None probes_listing_fails"
    "list_collection_names probes_listing_fails = Inl (replicate 60 CHR ''x'')"
    by (simp_all add: probes_listing_fails_def)
  have c: "db_is_not_None probes_twelve"
    "list_collection_names probes_twelve =
       Inr [''c01'', ''c02'', ''c03'', ''c04'', ''c05'', ''c06'', ''c07'', ''c08'', ''c09'',
            ''c10'', ''c11'', ''c12'']"
    by (simp_all add: probes_twelve_def)
  have r1: "test_database probes_no_handle =
       Inr (initial_response\<lparr>database := Available_but_not_initialized\<rparr>)"
    using a test_database_never_raises [of probes_no_handle] by blast
  have "test_database probes_listing_fails =
       Inr (initial_response
             \<lparr>database := Connected_but_Error (take 50 (replicate 60 CHR ''x'')),
              database_url := Some (config_flag (env_DATABASE_URL probes_listing_fails)),
              database_name := Some (config_flag (env_DATABASE_NAME probes_listing_fails))\<rparr>)"
    using b test_database_never_raises [of probes_listing_fails "replicate 60 CHR ''x''"] by blast
  then have r2: "test_database probes_listing_fails =
       Inr (initial_response
             \<lparr>database := Connected_but_Error (replicate 50 CHR ''x''),
              database_url := Some Is_Set, database_name := Some Not_Set\<rparr>)"
    by (simp add: probes_listing_fails_def config_flag_def)
  have "test_database probes_twelve =
          Inr (initial_response
                \<lparr>database := Connected_and_Working,
                 database_url := Some (config_flag (env_DATABASE_URL probes_twelve)),
                 database_name := Some (config_flag (env_DATABASE_NAME probes_twelve)),
                 connection_status := ''Connected'',
                 collections := take 10 [''c01'', ''c02'', ''c03'', ''c04'', ''c05'', ''c06'', ''c07'', ''c08'', ''c09'',
            ''c10'', ''c11'', ''c12'']\<rparr>)"
    using c test_database_never_raises [of probes_twelve _ "[''c01'', ''c02'', ''c03'', ''c04'', ''c05'', ''c06'', ''c07'', ''c08'', ''c09'',
            ''c10'', ''c11'', ''c12'']"] by blast
  then have r3: "test_database probes_twelve =
       Inr (initial_response
             \<lparr>database := Connected_and_Working,
              database_url := Some Is_Set, database_name := Some Is_Set,
              connection_status := ''Connected'',
              collections :=
                [''c01'', ''c02'', ''c03'', ''c04'', ''c05'', ''c06'', ''c07'', ''c08'', ''c09'',
                 ''c10'']\<rparr>)"
    by (simp add: probes_twelve_def config_flag_def)
  from a b c r1 r2 r3 show ?thesis by blast
qed

section \<open>Category filter\<close>








end
